theory Spec2Isabelle
  imports Main "HOL-Library.Word"
begin

unbundle bit_operations_syntax

section \<open>Go values used by \<^verbatim>\<open>cli/server/auth.go\<close>\<close>

type_synonym byte = "8 word"

text \<open>
  A Go \<^verbatim>\<open>error\<close> value. \<^verbatim>\<open>errors.New(msg)\<close> is \<open>errorString msg\<close>; cfssl's
  \<^verbatim>\<open>cerr.HTTPError{StatusCode, error}\<close> is \<open>HTTPError code err\<close>.
\<close>

text \<open>
  Modelled from the spec: the package variables \<^verbatim>\<open>errNoAuthHdr\<close> and
  \<^verbatim>\<open>errBasicAuthNotAllowed\<close> are declared in package \<^verbatim>\<open>server\<close> outside
  \<^verbatim>\<open>auth.go\<close>. The spec names them MissingAuthHeader and DisallowedCredentialForm, two
  rejection values of their own; they are constructors here, so each is equal to itself
  only.
\<close>

datatype error =
    errorString string
  | HTTPError nat error
  | errNoAuthHdr
  | errBasicAuthNotAllowed

definition NewBadRequest :: "error \<Rightarrow> error" where
  "NewBadRequest err = HTTPError 400 err"

definition authError :: error where
  "authError = NewBadRequest (errorString ''authorization failure'')"

text \<open>
  \<^verbatim>\<open>copAuthHandler\<close>: the two policy flags and the next handler. The handler type
  \<open>'h\<close> stands for \<^verbatim>\<open>http.Handler\<close>; the field \<^verbatim>\<open>next\<close> is written \<open>next'\<close>.
\<close>

record 'h copAuthHandler =
  basic :: bool
  token :: bool
  next' :: 'h

section \<open>The handler factory\<close>

definition wrappedPath :: "string \<Rightarrow> string" where
  "wrappedPath path = ''/api/v1/cfssl/'' @ path"

text \<open>
  A Go result pair \<^verbatim>\<open>(h http.Handler, err error)\<close> is a pair of options: \<open>None\<close> is
  \<^verbatim>\<open>nil\<close>.
\<close>

definition newAuthHandler ::
  "bool \<Rightarrow> bool \<Rightarrow> 'h \<Rightarrow> error option \<Rightarrow> 'h copAuthHandler option \<times> error option" where
  "newAuthHandler basicArg tokenArg handler errArg =
     (case errArg of
        Some e \<Rightarrow> (None, Some e)
      | None \<Rightarrow> (Some \<lparr>basic = basicArg, token = tokenArg, next' = handler\<rparr>, None))"

definition newBasicAuthHandler ::
  "'h \<Rightarrow> error option \<Rightarrow> 'h copAuthHandler option \<times> error option" where
  "newBasicAuthHandler handler errArg = newAuthHandler True False handler errArg"

definition newTokenAuthHandler ::
  "'h \<Rightarrow> error option \<Rightarrow> 'h copAuthHandler option \<times> error option" where
  "newTokenAuthHandler handler errArg = newAuthHandler False True handler errArg"

definition NewAuthWrapper ::
  "string \<Rightarrow> 'h \<Rightarrow> error option \<Rightarrow> string \<times> 'h copAuthHandler option \<times> error option" where
  "NewAuthWrapper path handler err =
     (if path = ''sign'' \<or> path = ''enroll''
      then (case newBasicAuthHandler handler err of
              (handler', err') \<Rightarrow> (wrappedPath path, handler', err'))
      else (case newTokenAuthHandler handler err of
              (handler', err') \<Rightarrow> (wrappedPath path, handler', err')))"

section \<open>Requests, capabilities and configuration\<close>

text \<open>
  A request body is an \<^verbatim>\<open>io.ReadCloser\<close>: the bytes still to be read, and how the
  stream ends after them (\<open>None\<close> is \<^verbatim>\<open>io.EOF\<close>, \<open>Some e\<close> a read error).
\<close>

datatype Body = Reader (unread: "byte list") (failure: "error option")

text \<open>
  \<^verbatim>\<open>ioutil.ReadAll\<close> drains the reader: it returns the bytes or the read error, and
  leaves the reader with nothing to read.
\<close>

definition ReadAll :: "Body \<Rightarrow> (error + byte list) \<times> Body" where
  "ReadAll b =
     (case failure b of
        Some e \<Rightarrow> (Inl e, Reader [] (Some e))
      | None \<Rightarrow> (Inr (unread b), Reader [] None))"

text \<open>\<^verbatim>\<open>ioutil.NopCloser(bytes.NewReader(body))\<close>: a fresh reader over \<open>body\<close>.\<close>

definition NewReader :: "byte list \<Rightarrow> Body" where
  "NewReader body = Reader body None"

text \<open>
  The parts of \<^verbatim>\<open>http.Request\<close> the handler touches. \<open>Header\<close> maps a canonical header
  name to its values.
\<close>

record Request =
  Header :: "string \<rightharpoonup> string list"
  Body :: Body

text \<open>
  \<^verbatim>\<open>Header.Get\<close>: the first value stored under the key, or the empty string. Go
  canonicalises the key first (\<^verbatim>\<open>"authorization"\<close> becomes \<^verbatim>\<open>"Authorization"\<close>);
  callers here pass the canonical key.
\<close>

definition Header_Get :: "(string \<rightharpoonup> string list) \<Rightarrow> string \<Rightarrow> string" where
  "Header_Get h key =
     (case h key of
        None \<Rightarrow> []
      | Some [] \<Rightarrow> []
      | Some (v # _) \<Rightarrow> v)"

text \<open>The fields of \<^verbatim>\<open>x509.Certificate\<close> and \<^verbatim>\<open>certdb.CertificateRecord\<close> that are read.\<close>

record Certificate =
  SerialNumber :: int
  AuthorityKeyId :: "byte list"

record CertificateRecord =
  Serial :: string
  AKI :: string
  Status :: string

text \<open>
  Functions of other packages, passed in: \<^verbatim>\<open>net/http\<close>'s parser of a Basic
  \<^verbatim>\<open>Authorization\<close> value (user and password, or not ok) and \<^verbatim>\<open>util.VerifyToken\<close>
  (the signer's certificate, or an error).
\<close>

record env =
  parseBasicAuth :: "string \<Rightarrow> (string \<times> string) option"
  VerifyToken :: "string \<Rightarrow> byte list \<Rightarrow> error + Certificate"

text \<open>
  Modelled from the spec: the global \<^verbatim>\<open>CFG\<close> and its type are declared in package
  \<^verbatim>\<open>server\<close> outside \<^verbatim>\<open>auth.go\<close>. The spec's AuthConfig holds the
  authentication-enabled flag, the user registry and the certificate store; the fields
  keep the names \<^verbatim>\<open>auth.go\<close> reads. \<open>UserRegistry\<close> is the registry's
  \<^verbatim>\<open>LoginUserBasicAuth(user, pwd)\<close> and \<open>certDBAccessor\<close> the store's
  \<^verbatim>\<open>GetCertificate(serial, aki)\<close>; \<open>'u\<close> is the identity a login returns.
\<close>

record 'u Config =
  Authentication :: bool
  UserRegistry :: "string \<Rightarrow> string \<Rightarrow> error + 'u"
  certDBAccessor :: "string \<Rightarrow> string \<Rightarrow> error + CertificateRecord list"

text \<open>
  \<^verbatim>\<open>Request.BasicAuth\<close> of \<^verbatim>\<open>net/http\<close>: not ok when the header is empty, the
  parser's answer otherwise.
\<close>

definition BasicAuth :: "env \<Rightarrow> Request \<Rightarrow> (string \<times> string) option" where
  "BasicAuth e r =
     (let auth = Header_Get (Header r) ''Authorization''
      in if auth = [] then None else parseBasicAuth e auth)"

subsection \<open>The lookup key: decimal serial number, hexadecimal authority key id\<close>

text \<open>\<^verbatim>\<open>big.Int.String\<close>: the decimal digits, with a leading minus sign below zero.\<close>

fun natString :: "nat \<Rightarrow> string" where
  "natString n =
     (if n < 10 then [''0123456789'' ! n]
      else natString (n div 10) @ [''0123456789'' ! (n mod 10)])"

declare natString.simps [simp del]

definition Int_String :: "int \<Rightarrow> string" where
  "Int_String x = (if x < 0 then CHR ''-'' # natString (nat (- x)) else natString (nat x))"

text \<open>\<^verbatim>\<open>hex.EncodeToString\<close>: two lower-case digits per byte, high nibble first.\<close>

definition hextable :: string where
  "hextable = ''0123456789abcdef''"

definition EncodeToString :: "byte list \<Rightarrow> string" where
  "EncodeToString src =
     concat (map (\<lambda>v. [hextable ! unat (drop_bit 4 v), hextable ! unat (v AND 0x0f)]) src)"

section \<open>The authentication gate\<close>

text \<open>
  The calls the gate makes on the request and on its collaborators, in order. Logging
  (\<^verbatim>\<open>log.Debug\<close>, \<^verbatim>\<open>log.Infof\<close> with \<^verbatim>\<open>util.HTTPRequestToString\<close>) is outside
  \<^verbatim>\<open>auth.go\<close>'s decision and is not recorded.
\<close>

datatype call =
    Call_Header_Get
  | Call_BasicAuth
  | Call_LoginUserBasicAuth string string
  | Call_ReadAll
  | Call_VerifyToken string "byte list"
  | Call_GetCertificate string string

text \<open>
  The result of \<^verbatim>\<open>serveHTTP\<close>: the returned error (\<open>None\<close> is \<^verbatim>\<open>nil\<close>), the request
  as the call leaves it, and the calls made. \<open>traced c res\<close> puts the call \<open>c\<close> before
  those of \<open>res\<close>.
\<close>

type_synonym result = "error option \<times> Request \<times> call list"

definition traced :: "call \<Rightarrow> result \<Rightarrow> result" where
  "traced c res = (case res of (err, r, cs) \<Rightarrow> (err, r, c # cs))"

definition serveHTTP :: "'h copAuthHandler \<Rightarrow> 'u Config \<Rightarrow> env \<Rightarrow> Request \<Rightarrow> result" where
  "serveHTTP ah cfg e r =
     (if \<not> Authentication cfg then (None, r, [])
      else
        let authHdr = Header_Get (Header r) ''Authorization'' in
        traced Call_Header_Get
         (if authHdr = [] then (Some errNoAuthHdr, r, [])
          else
            traced Call_BasicAuth
             (case BasicAuth e r of
                Some (user, pwd) \<Rightarrow>
                  if \<not> basic ah then (Some errBasicAuthNotAllowed, r, [])
                  else
                    traced (Call_LoginUserBasicAuth user pwd)
                     (case UserRegistry cfg user pwd of
                        Inl err \<Rightarrow> (Some err, r, [])
                      | Inr _ \<Rightarrow> (None, r, []))
              | None \<Rightarrow>
                  if token ah then
                    traced Call_ReadAll
                     (case ReadAll (Body r) of
                        (Inl _, drained) \<Rightarrow> (Some authError, r\<lparr>Body := drained\<rparr>, [])
                      | (Inr body, _) \<Rightarrow>
                          let r' = r\<lparr>Body := NewReader body\<rparr> in
                          traced (Call_VerifyToken authHdr body)
                           (case VerifyToken e authHdr body of
                              Inl _ \<Rightarrow> (Some authError, r', [])
                            | Inr cert \<Rightarrow>
                                let serial = Int_String (SerialNumber cert);
                                    aki = EncodeToString (AuthorityKeyId cert)
                                in
                                traced (Call_GetCertificate serial aki)
                                 (case certDBAccessor cfg serial aki of
                                    Inl _ \<Rightarrow> (Some authError, r', [])
                                  | Inr certs \<Rightarrow>
                                      if length certs \<noteq> 1 then (Some authError, r', [])
                                      else if Status (certs ! 0) \<noteq> ''good''
                                      then (Some authError, r', [])
                                      else (None, r', []))))
                  else (None, r, []))))"

text \<open>
  \<^verbatim>\<open>ServeHTTP\<close>: what the exported handler does with the request. Either the error
  goes to \<^verbatim>\<open>api.HandleError\<close>, or the request goes to the next handler.
\<close>

datatype 'h response = HandleError error | next_ServeHTTP 'h Request

definition ServeHTTP ::
  "'h copAuthHandler \<Rightarrow> 'u Config \<Rightarrow> env \<Rightarrow> Request \<Rightarrow> 'h response \<times> call list" where
  "ServeHTTP ah cfg e r =
     (case serveHTTP ah cfg e r of
        (Some err, _, cs) \<Rightarrow> (HandleError err, cs)
      | (None, r', cs) \<Rightarrow> (next_ServeHTTP (next' ah) r', cs))"

section \<open>An example deployment\<close>

text \<open>
  Concrete collaborators on which the theorems below are run. The Basic parser knows two
  header values (alice with the right and with a wrong secret); the token verifier accepts
  the header value \<open>cert.sig\<close> and returns a certificate with serial 427 and authority key
  id de ad be ef; the registry accepts alice/s3cret; the store holds one record for that
  certificate, with the given status.
\<close>

definition example_env :: env where
  "example_env =
     \<lparr>parseBasicAuth = (\<lambda>auth.
        if auth = ''Basic YWxpY2U6czNjcmV0'' then Some (''alice'', ''s3cret'')
        else if auth = ''Basic YWxpY2U6d3Jvbmc='' then Some (''alice'', ''wrong'')
        else None),
      VerifyToken = (\<lambda>tok body.
        if tok = ''cert.sig''
        then Inr \<lparr>SerialNumber = 427, AuthorityKeyId = [0xde, 0xad, 0xbe, 0xef]\<rparr>
        else Inl (errorString ''token verification failed''))\<rparr>"

definition example_CFG :: "string \<Rightarrow> unit Config" where
  "example_CFG status =
     \<lparr>Authentication = True,
      UserRegistry = (\<lambda>user pwd.
        if user = ''alice'' \<and> pwd = ''s3cret'' then Inr ()
        else Inl (errorString ''Incorrect password'')),
      certDBAccessor = (\<lambda>serial aki.
        if serial = ''427'' \<and> aki = ''deadbeef''
        then Inr [\<lparr>Serial = serial, AKI = aki, Status = status\<rparr>]
        else Inr [])\<rparr>"

definition example_request :: "string \<Rightarrow> Request" where
  "example_request auth =
     \<lparr>Header = [''Authorization'' \<mapsto> [auth]], Body = Reader [0x7b, 0x7d] None\<rparr>"

section \<open>The factory's policy mapping\<close>

text \<open>
  C4. For every endpoint name, the factory (given no construction error) builds a handler
  whose \<open>basic\<close> flag is set exactly when the name is "sign" or "enroll" and whose
  \<open>token\<close> flag is set exactly for every other name: each endpoint gets one of the two
  policies, never a handler with neither flag.
\<close>

theorem NewAuthWrapper_policy:
  "NewAuthWrapper path handler None =
     (wrappedPath path,
      Some \<lparr>basic = (path = ''sign'' \<or> path = ''enroll''),
            token = (path \<noteq> ''sign'' \<and> path \<noteq> ''enroll''),
            next' = handler\<rparr>,
      None)"
  by (simp add: NewAuthWrapper_def newBasicAuthHandler_def newTokenAuthHandler_def
      newAuthHandler_def)

text \<open>
  C8. For every endpoint name, next handler and non-nil construction error, the factory
  returns that same error and a nil handler: no gate wrapping the next handler is built.
\<close>

theorem NewAuthWrapper_construction_error:
  "NewAuthWrapper path handler (Some e) = (wrappedPath path, None, Some e)"
  by (simp add: NewAuthWrapper_def newBasicAuthHandler_def newTokenAuthHandler_def
      newAuthHandler_def)

section \<open>The gate: helper facts\<close>

text \<open>The handlers the two constructors build when there is no construction error.\<close>

lemma newTokenAuthHandler_Some:
  "newTokenAuthHandler nxt None = (Some ah, None) \<longleftrightarrow> ah = \<lparr>basic = False, token = True, next' = nxt\<rparr>"
  by (auto simp: newTokenAuthHandler_def newAuthHandler_def)

lemma newBasicAuthHandler_Some:
  "newBasicAuthHandler nxt None = (Some ah, None) \<longleftrightarrow> ah = \<lparr>basic = True, token = False, next' = nxt\<rparr>"
  by (auto simp: newBasicAuthHandler_def newAuthHandler_def)

text \<open>
  With authentication enabled, on a handler that takes tokens, a request whose header is
  present and is not a Basic credential, whose body reads to the end and whose token
  verifies: the returned error is decided by the store's answer alone, and the request is
  left with a fresh reader over the bytes read.
\<close>

lemma serveHTTP_verified:
  assumes "Authentication cfg" "token ah" "Header_Get (Header r) ''Authorization'' \<noteq> []"
    "BasicAuth e r = None" "failure (Body r) = None"
    "VerifyToken e (Header_Get (Header r) ''Authorization'') (unread (Body r)) = Inr cert"
  shows "fst (serveHTTP ah cfg e r) =
    (case certDBAccessor cfg (Int_String (SerialNumber cert)) (EncodeToString (AuthorityKeyId cert)) of
       Inl _ \<Rightarrow> Some authError
     | Inr certs \<Rightarrow> if length certs \<noteq> 1 then Some authError
                     else if Status (certs ! 0) \<noteq> ''good'' then Some authError else None)"
    and "fst (snd (serveHTTP ah cfg e r)) = r\<lparr>Body := NewReader (unread (Body r))\<rparr>"
  using assms
  by (auto simp: serveHTTP_def traced_def ReadAll_def Let_def
      split: if_splits option.splits sum.splits prod.splits)

text \<open>The equations that evaluate the gate on the example deployment.\<close>

lemmas gate_defs = ServeHTTP_def serveHTTP_def traced_def BasicAuth_def Header_Get_def
  ReadAll_def NewReader_def Let_def
lemmas example_defs = example_CFG_def example_env_def example_request_def

section \<open>The gate: bypass and Basic credentials\<close>

text \<open>
  C5. For every request and every handler (whatever its policy flags), if the
  configuration's \<open>Authentication\<close> flag is false the request goes to the next handler
  unchanged and the gate makes no call at all: the \<open>Authorization\<close> header is not read
  and no credential is parsed, whatever the header holds or lacks.
\<close>

theorem ServeHTTP_authentication_disabled:
  "\<not> Authentication cfg \<Longrightarrow> ServeHTTP ah cfg e r = (next_ServeHTTP (next' ah) r, [])"
  by (simp add: ServeHTTP_def serveHTTP_def)

theorem ServeHTTP_authentication_disabled_witness:
  "\<not> Authentication ((example_CFG ''good'')\<lparr>Authentication := False\<rparr>)
   \<and> ServeHTTP \<lparr>basic = False, token = True, next' = ''H''\<rparr>
        ((example_CFG ''good'')\<lparr>Authentication := False\<rparr>) example_env
        \<lparr>Header = Map.empty, Body = Reader [0x7b] None\<rparr>
      = (next_ServeHTTP ''H'' \<lparr>Header = Map.empty, Body = Reader [0x7b] None\<rparr>, [])"
  using ServeHTTP_authentication_disabled
    [of "(example_CFG ''good'')\<lparr>Authentication := False\<rparr>"
        "\<lparr>basic = False, token = True, next' = ''H''\<rparr>" example_env
        "\<lparr>Header = Map.empty, Body = Reader [0x7b] None\<rparr>"]
  by (simp add: example_CFG_def)


text \<open>
  C6. For every request on a route built by \<open>newTokenAuthHandler\<close>, with authentication
  enabled, whose \<open>Authorization\<close> header parses as a Basic credential, the request is
  rejected with \<open>errBasicAuthNotAllowed\<close>; the only calls are the header read and the
  Basic parse, so the user registry is not consulted (nothing is assumed about what it
  would answer).
\<close>

theorem ServeHTTP_basic_on_token_route:
  assumes "newTokenAuthHandler nxt None = (Some ah, None)"
    and "Authentication cfg"
    and "BasicAuth e r = Some (user, pwd)"
  shows "ServeHTTP ah cfg e r = (HandleError errBasicAuthNotAllowed, [Call_Header_Get, Call_BasicAuth])"
proof -
  have "\<not> basic ah"
    using assms(1) by (simp add: newTokenAuthHandler_Some)
  moreover have "Header_Get (Header r) ''Authorization'' \<noteq> []"
    using assms(3) by (auto simp: BasicAuth_def Let_def split: if_splits)
  ultimately show ?thesis
    using assms(2,3) by (simp add: ServeHTTP_def serveHTTP_def traced_def)
qed

theorem ServeHTTP_basic_on_token_route_witness:
  "newTokenAuthHandler ''H'' None = (Some \<lparr>basic = False, token = True, next' = ''H''\<rparr>, None)
   \<and> Authentication (example_CFG ''good'')
   \<and> BasicAuth example_env (example_request ''Basic YWxpY2U6czNjcmV0'') = Some (''alice'', ''s3cret'')
   \<and> UserRegistry (example_CFG ''good'') ''alice'' ''s3cret'' = Inr ()
   \<and> ServeHTTP \<lparr>basic = False, token = True, next' = ''H''\<rparr> (example_CFG ''good'') example_env
        (example_request ''Basic YWxpY2U6czNjcmV0'')
      = (HandleError errBasicAuthNotAllowed, [Call_Header_Get, Call_BasicAuth])"
proof -
  have h1: "newTokenAuthHandler ''H'' None = (Some \<lparr>basic = False, token = True, next' = ''H''\<rparr>, None)"
    by (simp add: newTokenAuthHandler_def newAuthHandler_def)
  have h2: "Authentication (example_CFG ''good'')"
    by (simp add: example_CFG_def)
  have h3: "BasicAuth example_env (example_request ''Basic YWxpY2U6czNjcmV0'') = Some (''alice'', ''s3cret'')"
    by (simp add: BasicAuth_def Header_Get_def example_defs)
  have h4: "UserRegistry (example_CFG ''good'') ''alice'' ''s3cret'' = Inr ()"
    by (simp add: example_CFG_def)
  from ServeHTTP_basic_on_token_route [OF h1 h2 h3] h1 h2 h3 h4 show ?thesis
    by simp
qed


text \<open>
  C7. For every request on a route built by \<open>newBasicAuthHandler\<close>, with authentication
  enabled, whose header parses as the Basic credential (user, pwd): the registry's login
  is called with (user, pwd); if it accepts, the request goes unchanged to the next
  handler, and if it returns an error, that error goes to the error responder and the
  next handler is not invoked.
\<close>

theorem ServeHTTP_basic_on_basic_route:
  assumes "newBasicAuthHandler nxt None = (Some ah, None)"
    and "Authentication cfg"
    and "BasicAuth e r = Some (user, pwd)"
  shows "ServeHTTP ah cfg e r =
           (case UserRegistry cfg user pwd of
              Inl err \<Rightarrow> HandleError err
            | Inr _ \<Rightarrow> next_ServeHTTP nxt r,
            [Call_Header_Get, Call_BasicAuth, Call_LoginUserBasicAuth user pwd])"
proof -
  have "basic ah" "next' ah = nxt"
    using assms(1) by (simp_all add: newBasicAuthHandler_Some)
  moreover have "Header_Get (Header r) ''Authorization'' \<noteq> []"
    using assms(3) by (auto simp: BasicAuth_def Let_def split: if_splits)
  ultimately show ?thesis
    using assms(2,3) by (simp add: ServeHTTP_def serveHTTP_def traced_def split: sum.splits)
qed

theorem ServeHTTP_basic_on_basic_route_witness:
  "newBasicAuthHandler ''H'' None = (Some \<lparr>basic = True, token = False, next' = ''H''\<rparr>, None)
   \<and> Authentication (example_CFG ''good'')
   \<and> BasicAuth example_env (example_request ''Basic YWxpY2U6czNjcmV0'') = Some (''alice'', ''s3cret'')
   \<and> ServeHTTP \<lparr>basic = True, token = False, next' = ''H''\<rparr> (example_CFG ''good'') example_env
        (example_request ''Basic YWxpY2U6czNjcmV0'')
      = (next_ServeHTTP ''H'' (example_request ''Basic YWxpY2U6czNjcmV0''),
         [Call_Header_Get, Call_BasicAuth, Call_LoginUserBasicAuth ''alice'' ''s3cret''])"
proof -
  have h1: "newBasicAuthHandler ''H'' None = (Some \<lparr>basic = True, token = False, next' = ''H''\<rparr>, None)"
    by (simp add: newBasicAuthHandler_def newAuthHandler_def)
  have h2: "Authentication (example_CFG ''good'')"
    by (simp add: example_CFG_def)
  have h3: "BasicAuth example_env (example_request ''Basic YWxpY2U6czNjcmV0'') = Some (''alice'', ''s3cret'')"
    by (simp add: BasicAuth_def Header_Get_def example_defs)
  have h4: "UserRegistry (example_CFG ''good'') ''alice'' ''s3cret'' = Inr ()"
    by (simp add: example_CFG_def)
  from ServeHTTP_basic_on_basic_route [OF h1 h2 h3] h1 h2 h3 h4 show ?thesis
    by simp
qed

section \<open>The gate: token verification and the certificate status\<close>

text \<open>
  C2, as stated, fails. It speaks of every request on a token route whose token verifies;
  with the configuration's \<open>Authentication\<close> flag off, \<^verbatim>\<open>serveHTTP\<close> returns nil before
  any check. On the handler built by \<open>newTokenAuthHandler\<close>, the header value \<open>cert.sig\<close>
  verifies (with the request's body) to the certificate with serial 427 and authority key
  id de ad be ef, the store's only record for (427, deadbeef) has the status "revoked",
  and the request is forwarded all the same, the gate making no call.
\<close>

theorem ServeHTTP_disabled_forwards_revoked:
  "newTokenAuthHandler ''H'' None = (Some \<lparr>basic = False, token = True, next' = ''H''\<rparr>, None)
   \<and> VerifyToken example_env ''cert.sig'' [0x7b, 0x7d]
      = Inr \<lparr>SerialNumber = 427, AuthorityKeyId = [0xde, 0xad, 0xbe, 0xef]\<rparr>
   \<and> Int_String 427 = ''427''
   \<and> EncodeToString [0xde, 0xad, 0xbe, 0xef] = ''deadbeef''
   \<and> certDBAccessor ((example_CFG ''revoked'')\<lparr>Authentication := False\<rparr>) ''427'' ''deadbeef''
      = Inr [\<lparr>Serial = ''427'', AKI = ''deadbeef'', Status = ''revoked''\<rparr>]
   \<and> ServeHTTP \<lparr>basic = False, token = True, next' = ''H''\<rparr>
        ((example_CFG ''revoked'')\<lparr>Authentication := False\<rparr>) example_env
        (example_request ''cert.sig'')
      = (next_ServeHTTP ''H'' (example_request ''cert.sig''), [])"
  by (simp add: newTokenAuthHandler_def newAuthHandler_def example_defs ServeHTTP_def
      serveHTTP_def Int_String_def natString.simps EncodeToString_def hextable_def)

text \<open>
  C2, amended. With authentication enabled, for every request on a route built by
  \<open>newTokenAuthHandler\<close> whose \<open>Authorization\<close> header is present and is not a Basic
  credential, whose body reads to the end, and whose token verifies (\<open>VerifyToken\<close> on
  the header value and the body bytes returns the certificate \<open>cert\<close>): the request is
  forwarded (with its body restored) if and only if the store's lookup for the
  certificate's decimal serial number and hexadecimal authority key id succeeds with
  exactly one record whose status is "good"; in every other case (lookup error, no
  record, two or more records, another status) the outcome is the rejection with
  \<open>authError\<close>.
\<close>

theorem serveHTTP_revocation_gate:
  assumes "newTokenAuthHandler nxt None = (Some ah, None)"
    and "Authentication cfg"
    and "Header_Get (Header r) ''Authorization'' = hdr"
    and "hdr \<noteq> []"
    and "BasicAuth e r = None"
    and "ReadAll (Body r) = (Inr body, drained)"
    and "VerifyToken e hdr body = Inr cert"
  shows "(fst (ServeHTTP ah cfg e r) = next_ServeHTTP nxt (r\<lparr>Body := NewReader body\<rparr>)) =
           (\<exists>rec. certDBAccessor cfg (Int_String (SerialNumber cert))
                     (EncodeToString (AuthorityKeyId cert)) = Inr [rec]
                  \<and> Status rec = ''good'')
       \<and> (fst (ServeHTTP ah cfg e r) = next_ServeHTTP nxt (r\<lparr>Body := NewReader body\<rparr>)
            \<or> fst (ServeHTTP ah cfg e r) = HandleError authError)"
proof -
  have ah: "token ah" "next' ah = nxt"
    using assms(1) by (simp_all add: newTokenAuthHandler_Some)
  have rd: "failure (Body r) = None" "body = unread (Body r)"
    using assms(6) by (auto simp: ReadAll_def split: option.splits)
  have cert: "VerifyToken e (Header_Get (Header r) ''Authorization'') (unread (Body r)) = Inr cert"
    using assms(3,7) rd by simp
  have hdr: "Header_Get (Header r) ''Authorization'' \<noteq> []"
    using assms(3,4) by simp
  note v = serveHTTP_verified [OF assms(2) ah(1) hdr assms(5) rd(1) cert]
  let ?look = "certDBAccessor cfg (Int_String (SerialNumber cert))
                     (EncodeToString (AuthorityKeyId cert))"
  have resp: "fst (ServeHTTP ah cfg e r) =
                (case fst (serveHTTP ah cfg e r) of
                   Some err \<Rightarrow> HandleError err
                 | None \<Rightarrow> next_ServeHTTP nxt (r\<lparr>Body := NewReader body\<rparr>))"
    using v(2) rd(2) ah(2)
    by (auto simp: ServeHTTP_def split: prod.splits option.splits)
  show ?thesis
  proof (cases ?look)
    case (Inl x)
    then show ?thesis using resp v(1) by simp
  next
    case (Inr certs)
    show ?thesis
    proof (cases certs)
      case Nil
      then show ?thesis using resp v(1) Inr by simp
    next
      case (Cons c cs)
      then show ?thesis using resp v(1) Inr by (cases cs) auto
    qed
  qed
qed

text \<open>
  The amended statement at a request whose certificate is revoked: every hypothesis holds
  there, and the request is rejected with \<open>authError\<close>.
\<close>

theorem serveHTTP_revocation_gate_witness:
  "newTokenAuthHandler ''H'' None = (Some \<lparr>basic = False, token = True, next' = ''H''\<rparr>, None)
   \<and> Authentication (example_CFG ''revoked'')
   \<and> Header_Get (Header (example_request ''cert.sig'')) ''Authorization'' = ''cert.sig''
   \<and> BasicAuth example_env (example_request ''cert.sig'') = None
   \<and> ReadAll (Body (example_request ''cert.sig'')) = (Inr [0x7b, 0x7d], Reader [] None)
   \<and> VerifyToken example_env ''cert.sig'' [0x7b, 0x7d]
      = Inr \<lparr>SerialNumber = 427, AuthorityKeyId = [0xde, 0xad, 0xbe, 0xef]\<rparr>
   \<and> certDBAccessor (example_CFG ''revoked'') ''427'' ''deadbeef''
      = Inr [\<lparr>Serial = ''427'', AKI = ''deadbeef'', Status = ''revoked''\<rparr>]
   \<and> fst (ServeHTTP \<lparr>basic = False, token = True, next' = ''H''\<rparr> (example_CFG ''revoked'')
            example_env (example_request ''cert.sig''))
      = HandleError authError"
proof -
  let ?ah = "\<lparr>basic = False, token = True, next' = ''H''\<rparr>"
  let ?cert = "\<lparr>SerialNumber = 427, AuthorityKeyId = [0xde, 0xad, 0xbe, 0xef]\<rparr>"
  have key: "Int_String 427 = ''427''" "EncodeToString [0xde, 0xad, 0xbe, 0xef] = ''deadbeef''"
    by (simp_all add: Int_String_def natString.simps EncodeToString_def hextable_def)
  have h1: "newTokenAuthHandler ''H'' None = (Some ?ah, None)"
    by (simp add: newTokenAuthHandler_def newAuthHandler_def)
  have h2: "Authentication (example_CFG ''revoked'')"
    by (simp add: example_CFG_def)
  have h3: "Header_Get (Header (example_request ''cert.sig'')) ''Authorization'' = ''cert.sig''"
    by (simp add: Header_Get_def example_request_def)
  have h4: "''cert.sig'' \<noteq> []"
    by simp
  have h5: "BasicAuth example_env (example_request ''cert.sig'') = None"
    by (simp add: BasicAuth_def Header_Get_def example_defs)
  have h6: "ReadAll (Body (example_request ''cert.sig'')) = (Inr [0x7b, 0x7d], Reader [] None)"
    by (simp add: ReadAll_def example_request_def)
  have h7: "VerifyToken example_env ''cert.sig'' [0x7b, 0x7d] = Inr ?cert"
    by (simp add: example_env_def)
  have look: "certDBAccessor (example_CFG ''revoked'') ''427'' ''deadbeef''
      = Inr [\<lparr>Serial = ''427'', AKI = ''deadbeef'', Status = ''revoked''\<rparr>]"
    by (simp add: example_CFG_def)
  from serveHTTP_revocation_gate [OF h1 h2 h3 h4 h5 h6 h7] look
  have "fst (ServeHTTP ?ah (example_CFG ''revoked'') example_env (example_request ''cert.sig''))
      = HandleError authError"
    by (auto simp: key)
  with h1 h2 h3 h5 h6 h7 look show ?thesis
    by simp
qed

section \<open>The gate: a header that is not a Basic credential, on a basic route\<close>

text \<open>
  When the Basic parse fails and the handler's \<open>token\<close> flag is off, \<^verbatim>\<open>serveHTTP\<close>
  skips the token block and reaches its final \<^verbatim>\<open>return nil\<close>.
\<close>

lemma serveHTTP_basic_route_unparsed_header:
  assumes "Authentication cfg" "Header_Get (Header r) ''Authorization'' \<noteq> []"
    "BasicAuth e r = None" "\<not> token ah"
  shows "serveHTTP ah cfg e r = (None, r, [Call_Header_Get, Call_BasicAuth])"
  using assms by (simp add: serveHTTP_def traced_def)

text \<open>
  C1. The claim is that a request on a basic route ("sign", "enroll"), with authentication
  enabled and an \<open>Authorization\<close> header that does not parse as a Basic credential, is
  rejected with \<open>authError\<close> and never reaches the next handler. Run on the handler the
  factory builds for "enroll", with authentication enabled and the header value
  \<open>Bearer abc\<close> (which the Basic parser refuses), the gate returns no error after the
  header read and the parse: the request goes to the next handler, no credential having
  been checked.
\<close>

theorem ServeHTTP_enroll_unparsed_header_forwarded:
  "NewAuthWrapper ''enroll'' ''H'' None
     = (''/api/v1/cfssl/enroll'', Some \<lparr>basic = True, token = False, next' = ''H''\<rparr>, None)
   \<and> Authentication (example_CFG ''good'')
   \<and> Header_Get (Header (example_request ''Bearer abc'')) ''Authorization'' = ''Bearer abc''
   \<and> BasicAuth example_env (example_request ''Bearer abc'') = None
   \<and> ServeHTTP \<lparr>basic = True, token = False, next' = ''H''\<rparr> (example_CFG ''good'') example_env
        (example_request ''Bearer abc'')
      = (next_ServeHTTP ''H'' (example_request ''Bearer abc''), [Call_Header_Get, Call_BasicAuth])"
proof -
  have h1: "Authentication (example_CFG ''good'')"
    by (simp add: example_CFG_def)
  have h2: "Header_Get (Header (example_request ''Bearer abc'')) ''Authorization'' = ''Bearer abc''"
    by (simp add: Header_Get_def example_request_def)
  have h3: "BasicAuth example_env (example_request ''Bearer abc'') = None"
    by (simp add: BasicAuth_def Header_Get_def example_defs)
  have "serveHTTP \<lparr>basic = True, token = False, next' = ''H''\<rparr> (example_CFG ''good'') example_env
        (example_request ''Bearer abc'')
      = (None, example_request ''Bearer abc'', [Call_Header_Get, Call_BasicAuth])"
    using h1 h2 h3 by (intro serveHTTP_basic_route_unparsed_header) simp_all
  then show ?thesis
    using h1 h2 h3
    by (simp add: ServeHTTP_def NewAuthWrapper_def newBasicAuthHandler_def newAuthHandler_def
        wrappedPath_def)
qed

section \<open>The error values of rejections\<close>

text \<open>
  A rejection of a request whose header is present and is not a Basic credential can only
  come from the token block, where every \<^verbatim>\<open>return\<close> of an error returns \<open>authError\<close>.
\<close>

lemma serveHTTP_unparsed_header_rejection:
  assumes "serveHTTP ah cfg e r = (Some err, r', cs)"
    and "Header_Get (Header r) ''Authorization'' \<noteq> []"
    and "BasicAuth e r = None"
  shows "err = authError"
  using assms
  by (auto simp: serveHTTP_def traced_def Let_def
      split: if_splits option.splits sum.splits prod.splits)

text \<open>
  C3, as stated, fails. A wrong secret on a basic route is rejected with the error the user
  registry returned (here \<open>errorString ''Incorrect password''\<close>); a revoked certificate on a
  token route is rejected with \<open>authError\<close>; the two error values differ.
\<close>

theorem serveHTTP_registry_error_unwrapped:
  "fst (serveHTTP \<lparr>basic = True, token = False, next' = ''H''\<rparr> (example_CFG ''revoked'')
          example_env (example_request ''Basic YWxpY2U6d3Jvbmc=''))
     = Some (errorString ''Incorrect password'')
   \<and> fst (serveHTTP \<lparr>basic = False, token = True, next' = ''H''\<rparr> (example_CFG ''revoked'')
          example_env (example_request ''cert.sig''))
     = Some authError
   \<and> errorString ''Incorrect password'' \<noteq> authError"
proof -
  have key: "Int_String 427 = ''427''" "EncodeToString [0xde, 0xad, 0xbe, 0xef] = ''deadbeef''"
    by (simp_all add: Int_String_def natString.simps EncodeToString_def hextable_def)
  show ?thesis
    by (simp add: gate_defs example_defs key authError_def NewBadRequest_def)
qed

text \<open>
  C3, amended. Any two rejected requests whose \<open>Authorization\<close> header is present and is
  not a Basic credential (the causes left are an unreadable body, an unverifiable token, a
  certificate-store error, a record count other than one, a status other than "good")
  produce the same error value, \<open>authError\<close>: no error of the body reader, the token
  verifier or the certificate store leaves the gate. On a handler that allows Basic
  credentials, an error of the user registry's login is returned by the gate as the
  registry produced it.
\<close>

theorem serveHTTP_rejections_uniform:
  "(serveHTTP ah cfg e r = (Some err, rq, cs)
      \<and> Header_Get (Header r) ''Authorization'' \<noteq> [] \<and> BasicAuth e r = None
      \<and> serveHTTP ah' cfg' e' r' = (Some err', rq', cs')
      \<and> Header_Get (Header r') ''Authorization'' \<noteq> [] \<and> BasicAuth e' r' = None
    \<longrightarrow> err = err' \<and> err' = authError)
   \<and> (basic ahb \<and> Authentication cfgb \<and> BasicAuth eb rb = Some (user, pwd)
        \<and> UserRegistry cfgb user pwd = Inl errb
    \<longrightarrow> fst (serveHTTP ahb cfgb eb rb) = Some errb)"
proof (intro conjI impI)
  assume a: "serveHTTP ah cfg e r = (Some err, rq, cs)
      \<and> Header_Get (Header r) ''Authorization'' \<noteq> [] \<and> BasicAuth e r = None
      \<and> serveHTTP ah' cfg' e' r' = (Some err', rq', cs')
      \<and> Header_Get (Header r') ''Authorization'' \<noteq> [] \<and> BasicAuth e' r' = None"
  then have "err = authError" "err' = authError"
    by (blast intro: serveHTTP_unparsed_header_rejection)+
  then show "err = err'" "err' = authError"
    by simp_all
next
  assume b: "basic ahb \<and> Authentication cfgb \<and> BasicAuth eb rb = Some (user, pwd)
        \<and> UserRegistry cfgb user pwd = Inl errb"
  then have "Header_Get (Header rb) ''Authorization'' \<noteq> []"
    by (auto simp: BasicAuth_def Let_def split: if_splits)
  with b show "fst (serveHTTP ahb cfgb eb rb) = Some errb"
    by (simp add: serveHTTP_def traced_def)
qed

theorem serveHTTP_rejections_uniform_witness:
  "serveHTTP \<lparr>basic = False, token = True, next' = ''H''\<rparr> (example_CFG ''revoked'') example_env
       (example_request ''cert.sig'')
     = (Some authError, example_request ''cert.sig'',
        [Call_Header_Get, Call_BasicAuth, Call_ReadAll, Call_VerifyToken ''cert.sig'' [0x7b, 0x7d],
         Call_GetCertificate ''427'' ''deadbeef''])
   \<and> Header_Get (Header (example_request ''cert.sig'')) ''Authorization'' \<noteq> []
   \<and> BasicAuth example_env (example_request ''cert.sig'') = None
   \<and> serveHTTP \<lparr>basic = False, token = True, next' = ''H''\<rparr> (example_CFG ''good'') example_env
       (example_request ''forged'')
     = (Some authError, example_request ''forged'',
        [Call_Header_Get, Call_BasicAuth, Call_ReadAll, Call_VerifyToken ''forged'' [0x7b, 0x7d]])
   \<and> Header_Get (Header (example_request ''forged'')) ''Authorization'' \<noteq> []
   \<and> BasicAuth example_env (example_request ''forged'') = None
   \<and> basic \<lparr>basic = True, token = False, next' = ''H''\<rparr>
   \<and> Authentication (example_CFG ''good'')
   \<and> BasicAuth example_env (example_request ''Basic YWxpY2U6d3Jvbmc='') = Some (''alice'', ''wrong'')
   \<and> UserRegistry (example_CFG ''good'') ''alice'' ''wrong'' = Inl (errorString ''Incorrect password'')
   \<and> fst (serveHTTP \<lparr>basic = True, token = False, next' = ''H''\<rparr> (example_CFG ''good'')
            example_env (example_request ''Basic YWxpY2U6d3Jvbmc=''))
       = Some (errorString ''Incorrect password'')"
proof -
  let ?tokenH = "\<lparr>basic = False, token = True, next' = ''H''\<rparr>"
  let ?basicH = "\<lparr>basic = True, token = False, next' = ''H''\<rparr>"
  let ?cs = "[Call_Header_Get, Call_BasicAuth, Call_ReadAll,
    Call_VerifyToken ''cert.sig'' [0x7b, 0x7d], Call_GetCertificate ''427'' ''deadbeef'']"
  let ?cs' = "[Call_Header_Get, Call_BasicAuth, Call_ReadAll,
    Call_VerifyToken ''forged'' [0x7b, 0x7d]]"
  have key: "Int_String 427 = ''427''" "EncodeToString [0xde, 0xad, 0xbe, 0xef] = ''deadbeef''"
    by (simp_all add: Int_String_def natString.simps EncodeToString_def hextable_def)
  have a1: "serveHTTP ?tokenH (example_CFG ''revoked'') example_env (example_request ''cert.sig'')
      = (Some authError, example_request ''cert.sig'', ?cs)"
    by (simp add: gate_defs example_defs key)
  have a2: "Header_Get (Header (example_request ''cert.sig'')) ''Authorization'' \<noteq> []"
    by (simp add: Header_Get_def example_request_def)
  have a3: "BasicAuth example_env (example_request ''cert.sig'') = None"
    by (simp add: BasicAuth_def Header_Get_def example_defs)
  have b1: "serveHTTP ?tokenH (example_CFG ''good'') example_env (example_request ''forged'')
      = (Some authError, example_request ''forged'', ?cs')"
    by (simp add: gate_defs example_defs)
  have b2: "Header_Get (Header (example_request ''forged'')) ''Authorization'' \<noteq> []"
    by (simp add: Header_Get_def example_request_def)
  have b3: "BasicAuth example_env (example_request ''forged'') = None"
    by (simp add: BasicAuth_def Header_Get_def example_defs)
  have c1: "basic ?basicH" "Authentication (example_CFG ''good'')"
    by (simp_all add: example_CFG_def)
  have c2: "BasicAuth example_env (example_request ''Basic YWxpY2U6d3Jvbmc='')
      = Some (''alice'', ''wrong'')"
    by (simp add: BasicAuth_def Header_Get_def example_defs)
  have c3: "UserRegistry (example_CFG ''good'') ''alice'' ''wrong''
      = Inl (errorString ''Incorrect password'')"
    by (simp add: example_CFG_def)
  have "fst (serveHTTP ?basicH (example_CFG ''good'') example_env
               (example_request ''Basic YWxpY2U6d3Jvbmc=''))
          = Some (errorString ''Incorrect password'')"
    using serveHTTP_rejections_uniform
      [where ahb = ?basicH and cfgb = "example_CFG ''good''" and eb = example_env
         and rb = "example_request ''Basic YWxpY2U6d3Jvbmc=''" and user = "''alice''"
         and pwd = "''wrong''" and errb = "errorString ''Incorrect password''"]
      c1 c2 c3
    by blast
  with a1 a2 a3 b1 b2 b3 c1 c2 c3 show ?thesis
    by simp
qed

section \<open>The request body\<close>

text \<open>
  C9. For every request on a route built by \<open>newTokenAuthHandler\<close> that the gate passes
  to the next handler, the body of the request presented to the next handler holds the
  same bytes, ending the same way, as the body that came in; and when the gate verified a
  token, the bytes it gave to \<open>VerifyToken\<close> are exactly those bytes.
\<close>

theorem ServeHTTP_body_roundtrip:
  assumes "newTokenAuthHandler nxt None = (Some ah, None)"
    and "ServeHTTP ah cfg e r = (next_ServeHTTP h r', calls)"
  shows "unread (Body r') = unread (Body r)
       \<and> failure (Body r') = failure (Body r)
       \<and> (\<forall>hdr body. Call_VerifyToken hdr body \<in> set calls \<longrightarrow> body = unread (Body r'))"
proof -
  have ah: "ah = \<lparr>basic = False, token = True, next' = nxt\<rparr>"
    using assms(1) by (simp add: newTokenAuthHandler_Some)
  obtain err where s: "serveHTTP ah cfg e r = (err, r', calls)"
    using assms(2) by (auto simp: ServeHTTP_def split: prod.splits option.splits)
  have none: "err = None"
    using assms(2) s by (auto simp: ServeHTTP_def split: option.splits)
  show ?thesis
    using s none unfolding ah
    by (auto simp: serveHTTP_def traced_def ReadAll_def NewReader_def Let_def
        split: if_splits option.splits sum.splits prod.splits)
qed

theorem ServeHTTP_body_roundtrip_witness:
  "newTokenAuthHandler ''H'' None = (Some \<lparr>basic = False, token = True, next' = ''H''\<rparr>, None)
   \<and> ServeHTTP \<lparr>basic = False, token = True, next' = ''H''\<rparr> (example_CFG ''good'') example_env
        \<lparr>Header = [''Authorization'' \<mapsto> [''cert.sig'']], Body = Reader [0x7b, 0x7d] None\<rparr>
      = (next_ServeHTTP ''H''
           \<lparr>Header = [''Authorization'' \<mapsto> [''cert.sig'']], Body = Reader [0x7b, 0x7d] None\<rparr>,
         [Call_Header_Get, Call_BasicAuth, Call_ReadAll, Call_VerifyToken ''cert.sig'' [0x7b, 0x7d],
          Call_GetCertificate ''427'' ''deadbeef''])
   \<and> unread (Body \<lparr>Header = [''Authorization'' \<mapsto> [''cert.sig'']],
                     Body = Reader [0x7b, 0x7d] None\<rparr>) = [0x7b, 0x7d]"
proof -
  let ?ah = "\<lparr>basic = False, token = True, next' = ''H''\<rparr>"
  let ?r = "\<lparr>Header = [''Authorization'' \<mapsto> [''cert.sig'']], Body = Reader [0x7b, 0x7d] None\<rparr>"
  let ?calls = "[Call_Header_Get, Call_BasicAuth, Call_ReadAll,
    Call_VerifyToken ''cert.sig'' [0x7b, 0x7d], Call_GetCertificate ''427'' ''deadbeef'']"
  have key: "Int_String 427 = ''427''" "EncodeToString [0xde, 0xad, 0xbe, 0xef] = ''deadbeef''"
    by (simp_all add: Int_String_def natString.simps EncodeToString_def hextable_def)
  have h1: "newTokenAuthHandler ''H'' None = (Some ?ah, None)"
    by (simp add: newTokenAuthHandler_def newAuthHandler_def)
  have h2: "ServeHTTP ?ah (example_CFG ''good'') example_env ?r = (next_ServeHTTP ''H'' ?r, ?calls)"
    by (simp add: gate_defs example_CFG_def example_env_def key)
  from ServeHTTP_body_roundtrip [OF h1 h2] h1 h2 show ?thesis
    by simp
qed

text \<open>
  C10. On a route built by \<open>newTokenAuthHandler\<close>, whenever the gate reads the body and
  the read succeeds with the bytes \<open>body\<close>, the request that \<^verbatim>\<open>serveHTTP\<close> leaves behind
  is the incoming request with a fresh reader over \<open>body\<close>, whatever \<^verbatim>\<open>serveHTTP\<close>
  returns (no error, or the rejection after a failed verification, a lookup error, a
  wrong record count or a bad status): the request keeps its original body bytes.
\<close>

theorem serveHTTP_body_restored:
  assumes "newTokenAuthHandler nxt None = (Some ah, None)"
    and "serveHTTP ah cfg e r = (err, r', calls)"
    and "Call_ReadAll \<in> set calls"
    and "ReadAll (Body r) = (Inr body, drained)"
  shows "r' = r\<lparr>Body := NewReader body\<rparr> \<and> unread (Body r') = unread (Body r)"
proof -
  have ah: "ah = \<lparr>basic = False, token = True, next' = nxt\<rparr>"
    using assms(1) by (simp add: newTokenAuthHandler_Some)
  show ?thesis
    using assms(2,3,4) unfolding ah
    by (auto simp: serveHTTP_def traced_def ReadAll_def NewReader_def Let_def
        split: if_splits option.splits sum.splits prod.splits)
qed

theorem serveHTTP_body_restored_witness:
  "newTokenAuthHandler ''H'' None = (Some \<lparr>basic = False, token = True, next' = ''H''\<rparr>, None)
   \<and> serveHTTP \<lparr>basic = False, token = True, next' = ''H''\<rparr> (example_CFG ''revoked'') example_env
        \<lparr>Header = [''Authorization'' \<mapsto> [''cert.sig'']], Body = Reader [0x7b, 0x7d] None\<rparr>
      = (Some authError,
         \<lparr>Header = [''Authorization'' \<mapsto> [''cert.sig'']], Body = Reader [0x7b, 0x7d] None\<rparr>,
         [Call_Header_Get, Call_BasicAuth, Call_ReadAll, Call_VerifyToken ''cert.sig'' [0x7b, 0x7d],
          Call_GetCertificate ''427'' ''deadbeef''])
   \<and> ReadAll (Reader [0x7b, 0x7d] None) = (Inr [0x7b, 0x7d], Reader [] None)"
proof -
  let ?ah = "\<lparr>basic = False, token = True, next' = ''H''\<rparr>"
  let ?r = "\<lparr>Header = [''Authorization'' \<mapsto> [''cert.sig'']], Body = Reader [0x7b, 0x7d] None\<rparr>"
  let ?calls = "[Call_Header_Get, Call_BasicAuth, Call_ReadAll,
    Call_VerifyToken ''cert.sig'' [0x7b, 0x7d], Call_GetCertificate ''427'' ''deadbeef'']"
  have key: "Int_String 427 = ''427''" "EncodeToString [0xde, 0xad, 0xbe, 0xef] = ''deadbeef''"
    by (simp_all add: Int_String_def natString.simps EncodeToString_def hextable_def)
  have h1: "newTokenAuthHandler ''H'' None = (Some ?ah, None)"
    by (simp add: newTokenAuthHandler_def newAuthHandler_def)
  have h2: "serveHTTP ?ah (example_CFG ''revoked'') example_env ?r = (Some authError, ?r, ?calls)"
    by (simp add: gate_defs example_CFG_def example_env_def key)
  have h3: "Call_ReadAll \<in> set ?calls"
    by simp
  have h4: "ReadAll (Body ?r) = (Inr [0x7b, 0x7d], Reader [] None)"
    by (simp add: ReadAll_def)
  from serveHTTP_body_restored [OF h1 h2 h3 h4] h1 h2 h4 show ?thesis
    by simp
qed

end
